theory Spec2Isabelle
  imports Complex_Main
begin

section \<open>Values and errors\<close>

text \<open>
  The report generator computes with Python floats. They are modelled as exact reals,
  so rounding is not modelled. A power that overflows raises OverflowError in Python and
  does so in the model. The other operations overflow to infinity or underflow to zero
  without raising, which exact reals do not follow; a result that depends on it is
  therefore stated for inputs of moderate magnitude (see \<open>moderate\<close> below), where no
  intermediate result leaves the range of a float. The one non-number a float cell of a
  financial statement can hold, NaN, is modelled where the source tests for it.
  \<open>error\<close> lists the exceptions of the modelled code; \<open>WriteError\<close> is what a write to a
  closed or broken output stream raises.
\<close>

datatype error = TypeError | ZeroDivisionError | IndexError | OverflowError | WriteError

text \<open>
  A value stored in the \<^verbatim>\<open>info\<close> dictionary of the data provider: a number, or
  \<^verbatim>\<open>None\<close> for a field the provider lists without a value.
\<close>

datatype pyval = PyNone | PyNum real

type_synonym info = "string \<rightharpoonup> pyval"

text \<open>\<^verbatim>\<open>info.get(key, default)\<close>: the default is used only when the key is absent.\<close>

definition dict_get :: "info \<Rightarrow> string \<Rightarrow> pyval \<Rightarrow> pyval" where
  "dict_get d k dflt = (case d k of None \<Rightarrow> dflt | Some v \<Rightarrow> v)"

text \<open>Python truthiness of a value in a condition: \<^verbatim>\<open>None\<close> and zero are false.\<close>

fun truthy :: "pyval \<Rightarrow> bool" where
  "truthy PyNone = False"
| "truthy (PyNum x) = (x \<noteq> 0)"

text \<open>The largest finite float, \<^verbatim>\<open>sys.float_info.max\<close>, about \<^verbatim>\<open>1.8e308\<close>.\<close>

definition float_max :: real where
  "float_max = 2 ^ 1024 - 2 ^ 971"

text \<open>
  \<^verbatim>\<open>x ** n\<close> for a float \<open>x\<close> and a non-negative integer \<open>n\<close>: a result beyond the largest
  float raises OverflowError.
\<close>

definition py_pow :: "real \<Rightarrow> nat \<Rightarrow> error + real" where
  "py_pow x n = (if float_max < \<bar>x ^ n\<bar> then Inl OverflowError else Inr (x ^ n))"

text \<open>
  A number of moderate magnitude: zero, or between \<^verbatim>\<open>1e-50\<close> and \<^verbatim>\<open>1e50\<close> in absolute value.
  Sums, products and quotients of a few such numbers stay inside the range of a float.
\<close>

definition moderate :: "real \<Rightarrow> bool" where
  "moderate x = (x = 0 \<or> (1 / 10 ^ 50 \<le> \<bar>x\<bar> \<and> \<bar>x\<bar> \<le> 10 ^ 50))"


section \<open>calculate_wacc (lines 124-168)\<close>

text \<open>
  The body of the \<^verbatim>\<open>try\<close> block. Arithmetic or comparison on \<^verbatim>\<open>None\<close> raises
  TypeError: \<^verbatim>\<open>max(beta_raw, 0.7)\<close> at line 131, \<^verbatim>\<open>total_debt - total_cash\<close> at line 152,
  \<^verbatim>\<open>equity_value + debt_value\<close> at line 154. The condition
  \<^verbatim>\<open>interest_expense and total_debt\<close> only tests truthiness, so \<^verbatim>\<open>None\<close> there selects
  the spread branch without raising.
\<close>

definition calculate_wacc_try :: "info \<Rightarrow> real \<Rightarrow> real \<Rightarrow> error + real" where
  "calculate_wacc_try info risk_free_rate market_risk_premium =
     (case dict_get info ''beta'' (PyNum 0.8) of
        PyNone \<Rightarrow> Inl TypeError
      | PyNum beta_raw \<Rightarrow>
          let beta = (if beta_raw < 0.5 then 0.75 else max beta_raw 0.7);
              total_debt = dict_get info ''totalDebt'' (PyNum 0);
              total_cash = dict_get info ''totalCash'' (PyNum 0);
              market_cap = dict_get info ''marketCap'' (PyNum 0);
              cost_of_equity = risk_free_rate + beta * market_risk_premium;
              interest_expense = dict_get info ''interestExpense'' (PyNum 0);
              cost_of_debt =
                (case (interest_expense, total_debt) of
                   (PyNum ie, PyNum td) \<Rightarrow>
                     if ie \<noteq> 0 \<and> td \<noteq> 0 then \<bar>ie\<bar> / td else risk_free_rate + 0.015
                 | _ \<Rightarrow> risk_free_rate + 0.015)
          in
          (case (total_debt, total_cash) of
             (PyNum td, PyNum tc) \<Rightarrow>
               let debt_value = td - tc in
               (case market_cap of
                  PyNone \<Rightarrow> Inl TypeError
                | PyNum equity_value \<Rightarrow>
                    let total_value = equity_value + debt_value in
                    if total_value > 0 then
                      let equity_weight = equity_value / total_value;
                          debt_weight = debt_value / total_value;
                          tax_rate = 0.21
                      in Inr (equity_weight * cost_of_equity
                              + debt_weight * cost_of_debt * (1 - tax_rate))
                    else Inr 0.085)
           | _ \<Rightarrow> Inl TypeError))"

text \<open>The bare \<^verbatim>\<open>except\<close> turns every exception into the default of 8.5%.\<close>

definition calculate_wacc :: "info \<Rightarrow> real \<Rightarrow> real \<Rightarrow> real" where
  "calculate_wacc info risk_free_rate market_risk_premium =
     (case calculate_wacc_try info risk_free_rate market_risk_premium of
        Inl _ \<Rightarrow> 0.085
      | Inr wacc \<Rightarrow> wacc)"

subsection \<open>The parts of the calculation\<close>

text \<open>
  The adjusted beta (lines 131-133), the cost of equity (line 140) and the cost of debt
  (lines 144-148) as functions of the inputs, to state what the result is.
\<close>

definition adjusted_beta :: "real \<Rightarrow> real" where
  "adjusted_beta beta_raw = (if beta_raw < 0.5 then 0.75 else max beta_raw 0.7)"

definition cost_of_equity :: "real \<Rightarrow> real \<Rightarrow> real \<Rightarrow> real" where
  "cost_of_equity risk_free_rate market_risk_premium beta_raw =
     risk_free_rate + adjusted_beta beta_raw * market_risk_premium"

definition cost_of_debt :: "real \<Rightarrow> pyval \<Rightarrow> real \<Rightarrow> real" where
  "cost_of_debt risk_free_rate interest_expense total_debt =
     (case interest_expense of
        PyNum ie \<Rightarrow>
          if ie \<noteq> 0 \<and> total_debt \<noteq> 0 then \<bar>ie\<bar> / total_debt else risk_free_rate + 0.015
      | PyNone \<Rightarrow> risk_free_rate + 0.015)"

section \<open>calculate_dcf (lines 170-189)\<close>

text \<open>
  The loop \<^verbatim>\<open>for i, cf in enumerate(cashflows, 1): pv_cf += cf / ((1 + wacc) ** i)\<close>.
  The power raises OverflowError when it leaves the range of a float, and a float
  division by zero raises ZeroDivisionError.
\<close>

fun discount_loop :: "real \<Rightarrow> nat \<Rightarrow> real list \<Rightarrow> real \<Rightarrow> error + real" where
  "discount_loop wacc i [] pv_cf = Inr pv_cf"
| "discount_loop wacc i (cf # cfs) pv_cf =
     (case py_pow (1 + wacc) i of
        Inl e \<Rightarrow> Inl e
      | Inr p \<Rightarrow>
          if p = 0 then Inl ZeroDivisionError
          else discount_loop wacc (Suc i) cfs (pv_cf + cf / p))"

text \<open>
  \<open>Inl e\<close> stands for the handler of the function: it prints
  \<^verbatim>\<open>DCF calculation error: e\<close> and returns \<^verbatim>\<open>(None, None, None)\<close>.
  \<open>Inr (ev, pv_cf, pv_terminal)\<close> is the normal return.
  \<^verbatim>\<open>cashflows[-1]\<close> raises IndexError on the empty list.
\<close>

definition calculate_dcf :: "real list \<Rightarrow> real \<Rightarrow> real \<Rightarrow> nat \<Rightarrow> error + (real \<times> real \<times> real)" where
  "calculate_dcf cashflows wacc terminal_growth years =
     (case discount_loop wacc 1 cashflows 0 of
        Inl e \<Rightarrow> Inl e
      | Inr pv_cf \<Rightarrow>
          (if cashflows = [] then Inl IndexError
           else
             let terminal_cf = last cashflows * (1 + terminal_growth) in
             if wacc - terminal_growth = 0 then Inl ZeroDivisionError
             else
               let terminal_value = terminal_cf / (wacc - terminal_growth) in
               (case py_pow (1 + wacc) years of
                  Inl e \<Rightarrow> Inl e
                | Inr p \<Rightarrow>
                    if p = 0 then Inl ZeroDivisionError
                    else
                      let pv_terminal = terminal_value / p;
                          ev = pv_cf + pv_terminal
                      in Inr (ev, pv_cf, pv_terminal))))"

section \<open>generate_report: the valuation model (lines 196-384)\<close>

subsection \<open>Base-year revenue (lines 196-217)\<close>

text \<open>
  A cell of a financial statement is a float that may be NaN. The statement is a table
  indexed by row label; each row lists the years, most recent first.
\<close>

datatype cell = NaN | Val real

type_synonym frame = "string \<rightharpoonup> cell list"

fun cell_div :: "cell \<Rightarrow> real \<Rightarrow> cell" where
  "cell_div NaN d = NaN"
| "cell_div (Val x) d = Val (x / d)"

text \<open>
  \<open>has_hist\<close> says that the price history was fetched. Without data the guidance figure
  45.0 is used (line 200). With a \<^verbatim>\<open>Total Revenue\<close> row the first cell is taken and, when
  \<^verbatim>\<open>pd.isna\<close> holds of it, the second one, which is not tested again. \<^verbatim>\<open>iloc\<close> raises
  IndexError past the end of the row.
\<close>

definition generate_report_revenue_2024 ::
    "info option \<Rightarrow> bool \<Rightarrow> frame option \<Rightarrow> error + cell" where
  "generate_report_revenue_2024 lly_info has_hist financials =
     (case lly_info of
        None \<Rightarrow> Inr (Val 45.0)
      | Some d \<Rightarrow>
          if \<not> has_hist then Inr (Val 45.0)
          else
            (case (case financials of None \<Rightarrow> None | Some f \<Rightarrow> f ''Total Revenue'') of
               Some row \<Rightarrow>
                 (case row of
                    [] \<Rightarrow> Inl IndexError
                  | c0 # rest \<Rightarrow>
                      let revenue_2024 = cell_div c0 (10 ^ 9) in
                      if revenue_2024 = NaN then
                        (case rest of
                           [] \<Rightarrow> Inl IndexError
                         | c1 # _ \<Rightarrow> Inr (cell_div c1 (10 ^ 9)))
                      else Inr revenue_2024)
             | None \<Rightarrow>
                 (case dict_get d ''totalRevenue'' (PyNum (45.0 * 10 ^ 9)) of
                    PyNone \<Rightarrow> Inl TypeError
                  | PyNum x \<Rightarrow> Inr (Val (x / 10 ^ 9)))))"

subsection \<open>Revenue and segment forecast (lines 230-241)\<close>

record revenue_forecast =
  revenue_2024 :: real
  revenue_2025 :: real
  revenue_2026 :: real
  revenue_2027 :: real
  glp1_2024 :: real
  glp1_2025 :: real
  glp1_2026 :: real
  glp1_2027 :: real

definition generate_report_revenue :: "real \<Rightarrow> revenue_forecast" where
  "generate_report_revenue rev_2024 =
     (let rev_2025 = 59.5;
          rev_2026 = rev_2025 * 1.28;
          rev_2027 = rev_2026 * 1.22
      in \<lparr> revenue_2024 = rev_2024, revenue_2025 = rev_2025,
           revenue_2026 = rev_2026, revenue_2027 = rev_2027,
           glp1_2024 = rev_2024 * 0.45, glp1_2025 = rev_2025 * 0.55,
           glp1_2026 = rev_2026 * 0.60, glp1_2027 = rev_2027 * 0.62 \<rparr>)"

text \<open>The share of the segment in a year's revenue, as the report's tables show it.\<close>

definition segment_share :: "real \<Rightarrow> real \<Rightarrow> real" where
  "segment_share glp1 revenue = glp1 / revenue"

subsection \<open>Operating margin (lines 246-264)\<close>

definition generate_report_op_margin_2024 :: "info option \<Rightarrow> real" where
  "generate_report_op_margin_2024 lly_info =
     (case lly_info of
        None \<Rightarrow> 0.38
      | Some d \<Rightarrow>
          (case dict_get d ''operatingMargins'' PyNone of
             PyNone \<Rightarrow> 0.38
           | PyNum op_margin_actual \<Rightarrow>
               if op_margin_actual = 0 then 0.38
               else if op_margin_actual > 0.40 then 0.38
               else if op_margin_actual > 0.30 then op_margin_actual
               else 0.38))"

subsection \<open>Earnings per share (lines 269-294)\<close>

text \<open>The revenue times margin model of lines 277-279.\<close>

definition eps_model :: "real \<Rightarrow> real \<Rightarrow> real \<Rightarrow> real" where
  "eps_model revenue op_margin shares_outstanding =
     (revenue * op_margin * 10 ^ 9) / shares_outstanding"

record eps_forecast =
  eps_2024 :: real
  eps_2025 :: real
  eps_2026 :: real
  eps_2027 :: real

text \<open>
  \<open>fc\<close> is the revenue forecast computed before. Division by a zero price or a zero
  share count raises ZeroDivisionError, and the
  comparison at line 282 raises TypeError when neither EPS figure is a number. Nothing
  in \<^verbatim>\<open>generate_report\<close> catches them.
\<close>

definition generate_report_eps ::
    "revenue_forecast \<Rightarrow> real \<Rightarrow> real \<Rightarrow> pyval \<Rightarrow> pyval \<Rightarrow> real \<Rightarrow> error + eps_forecast" where
  "generate_report_eps fc market_cap current_price forward_eps ttm_eps op_margin_2024 =
     (let op_margin_2025 = op_margin_2024 + 0.01;
          op_margin_2026 = op_margin_2025 + 0.01;
          op_margin_2027 = op_margin_2026 + 0.005
      in
      if current_price = 0 then Inl ZeroDivisionError
      else
        let shares_outstanding = market_cap / current_price;
            e_2024 = (if truthy forward_eps then forward_eps else ttm_eps)
        in
        if shares_outstanding = 0 then Inl ZeroDivisionError
        else
          let e_2025 = eps_model (revenue_2025 fc) op_margin_2025 shares_outstanding;
              e_2026 = eps_model (revenue_2026 fc) op_margin_2026 shares_outstanding;
              e_2027 = eps_model (revenue_2027 fc) op_margin_2027 shares_outstanding
          in
          (case e_2024 of
             PyNone \<Rightarrow> Inl TypeError
           | PyNum e24 \<Rightarrow>
               if e_2025 < e24 then
                 let e25 = e24 * 1.10;
                     e26 = e25 * 1.25;
                     e27 = e26 * 1.20
                 in Inr \<lparr> eps_2024 = e24, eps_2025 = e25, eps_2026 = e26, eps_2027 = e27 \<rparr>
               else
                 let e26 = (if e_2026 < e_2025 then e_2025 * 1.20 else e_2026);
                     e27 = (if e_2027 < e26 then e26 * 1.15 else e_2027)
                 in Inr \<lparr> eps_2024 = e24, eps_2025 = e_2025, eps_2026 = e26, eps_2027 = e27 \<rparr>))"

subsection \<open>Probability-weighted target (lines 369-382)\<close>

definition target_price_weighted :: "real \<Rightarrow> real \<Rightarrow> real \<Rightarrow> real" where
  "target_price_weighted target_price_bull target_price_base target_price_bear =
     (let prob_bull = 0.35; prob_base = 0.45; prob_bear = 0.20
      in target_price_bull * prob_bull + target_price_base * prob_base
         + target_price_bear * prob_bear)"

definition target_price :: "real \<Rightarrow> real \<Rightarrow> real \<Rightarrow> real" where
  "target_price target_price_bull target_price_base target_price_bear =
     target_price_weighted target_price_bull target_price_base target_price_bear * 0.6
     + target_price_bull * 0.4"

section \<open>The run of the script (lines 191-294 and 1044-1050)\<close>

text \<open>
  What a run does to the terminal and to the file system: a line printed on stdout, the
  line \<^verbatim>\<open>Error generating report: ...\<close> of the main block with the message of the exception,
  the stack trace that \<^verbatim>\<open>traceback.print_exc()\<close> prints on stderr, a file written.
\<close>

datatype effect = Print string | PrintError error | PrintTraceback error | WriteFile string

text \<open>A call either returns a value or raises an exception.\<close>

datatype 'a outcome = Returned 'a | Raised error

text \<open>Whether the two output streams of the process accept writes.\<close>

record streams =
  stdout_ok :: bool
  stderr_ok :: bool

text \<open>
  What \<^verbatim>\<open>fetch_lly_data\<close> hands over: either it caught an exception, printed it (line 90)
  and returned no data, or it returns the \<^verbatim>\<open>info\<close> dictionary, the closing prices of the
  history, oldest first, and the income statement if there is one.
\<close>

record fetched =
  f_info :: info
  f_close :: "real list"
  f_financials :: "frame option"

datatype fetch = FetchFailed string | Fetched fetched

text \<open>
  The inputs of the model (lines 196-220). \<^verbatim>\<open>lly_hist['Close'].iloc[-1]\<close> is evaluated as
  the default of the price before it is known whether it is needed, and raises IndexError
  on an empty history. A null price or market value is replaced (lines 205-209); the EPS
  figures are taken as they come.
\<close>

record base_inputs =
  b_current_price :: real
  b_market_cap :: real
  b_revenue_2024 :: cell
  b_ttm_eps :: pyval
  b_forward_eps :: pyval

definition generate_report_inputs :: "fetch \<Rightarrow> error + base_inputs" where
  "generate_report_inputs f =
     (case f of
        FetchFailed _ \<Rightarrow>
          Inr \<lparr> b_current_price = 1030.05, b_market_cap = 980 * 10 ^ 9,
                b_revenue_2024 = Val 45.0, b_ttm_eps = PyNum 19.80,
                b_forward_eps = PyNum 22.66 \<rparr>
      | Fetched d \<Rightarrow>
          (case f_close d of
             [] \<Rightarrow> Inl IndexError
           | _ # _ \<Rightarrow>
               let close = last (f_close d);
                   current_price =
                     (case dict_get (f_info d) ''currentPrice'' (PyNum close) of
                        PyNone \<Rightarrow> close
                      | PyNum p \<Rightarrow> p);
                   market_cap =
                     (case dict_get (f_info d) ''marketCap'' (PyNum (980 * 10 ^ 9)) of
                        PyNone \<Rightarrow> 980 * 10 ^ 9
                      | PyNum m \<Rightarrow> m)
               in
               (case generate_report_revenue_2024 (Some (f_info d)) True (f_financials d) of
                  Inl e \<Rightarrow> Inl e
                | Inr revenue \<Rightarrow>
                    Inr \<lparr> b_current_price = current_price, b_market_cap = market_cap,
                          b_revenue_2024 = revenue,
                          b_ttm_eps = dict_get (f_info d) ''trailingEps'' (PyNum 20.45),
                          b_forward_eps = dict_get (f_info d) ''forwardEps'' (PyNum 22.66) \<rparr>)))"

text \<open>
  The number in a cell. The forecast of 2025 to 2027, which is all that the EPS model
  reads, does not depend on the base year, so a NaN base year is passed on as 0 there.
\<close>

fun cell_number :: "cell \<Rightarrow> real" where
  "cell_number (Val r) = r"
| "cell_number NaN = 0"

text \<open>
  The valuation up to the EPS path (lines 196-294): the inputs, the revenue forecast, the
  margin and the EPS path. An exception of any of them leaves \<^verbatim>\<open>generate_report\<close>.
\<close>

definition generate_report_valuation :: "fetch \<Rightarrow> error + (base_inputs \<times> eps_forecast)" where
  "generate_report_valuation f =
     (case generate_report_inputs f of
        Inl e \<Rightarrow> Inl e
      | Inr b \<Rightarrow>
          let fc = generate_report_revenue (cell_number (b_revenue_2024 b));
              op_margin_2024 =
                generate_report_op_margin_2024
                  (case f of FetchFailed _ \<Rightarrow> None | Fetched d \<Rightarrow> Some (f_info d))
          in
          (case generate_report_eps fc (b_market_cap b) (b_current_price b)
                  (b_forward_eps b) (b_ttm_eps b) op_margin_2024 of
             Inl e \<Rightarrow> Inl e
           | Inr eps \<Rightarrow> Inr (b, eps)))"

text \<open>
  A run of \<^verbatim>\<open>generate_report\<close>: the effects so far and the outcome. The first statement
  prints (line 193) and raises when stdout does not accept writes. The data is fetched,
  the messages of a failed fetch are printed (lines 90 and 197) and the valuation runs.
  \<open>rest\<close> stands for the statements after line 294, which are not modelled: the rest of
  the valuation, the layout of the pages, the chart (line 640) and \<^verbatim>\<open>pdf.output\<close>
  (line 1040) with the confirmation after it. It is given the valuation and yields its
  own effects and the outcome of the function.
\<close>

definition generate_report ::
    "streams \<Rightarrow> fetch \<Rightarrow> (base_inputs \<times> eps_forecast \<Rightarrow> effect list \<times> string outcome)
      \<Rightarrow> effect list \<times> string outcome" where
  "generate_report s f rest =
     (if \<not> stdout_ok s then ([], Raised WriteError)
      else
        let printed =
              [Print ''Fetching LLY stock data, financials, and peer comparisons...'']
              @ (case f of
                   FetchFailed msg \<Rightarrow>
                     [Print (''Error fetching data: '' @ msg),
                      Print ''Error: Could not fetch stock data. Using provided data.'']
                 | Fetched _ \<Rightarrow> [])
        in
        (case generate_report_valuation f of
           Inl e \<Rightarrow> (printed, Raised e)
         | Inr v \<Rightarrow> (case rest v of (later, out) \<Rightarrow> (printed @ later, out))))"


text \<open>
  The main block (lines 1044-1050). \<^verbatim>\<open>except Exception\<close> prints the message on stdout and
  the stack trace on stderr; either write raises in its turn when its stream does not
  accept it, and that exception leaves the script. Nothing re-raises or calls
  \<^verbatim>\<open>sys.exit\<close>.
\<close>

definition main ::
    "streams \<Rightarrow> fetch \<Rightarrow> (base_inputs \<times> eps_forecast \<Rightarrow> effect list \<times> string outcome)
      \<Rightarrow> effect list \<times> unit outcome" where
  "main s f rest =
     (case generate_report s f rest of
        (effects, Returned _) \<Rightarrow> (effects, Returned ())
      | (effects, Raised e) \<Rightarrow>
          if \<not> stdout_ok s then (effects, Raised WriteError)
          else if \<not> stderr_ok s then (effects @ [PrintError e], Raised WriteError)
          else (effects @ [PrintError e, PrintTraceback e], Returned ()))"

text \<open>
  The exit status of the interpreter: 0 when the script runs to its end, 1 when an
  exception leaves it.
\<close>

definition exit_status :: "unit outcome \<Rightarrow> nat" where
  "exit_status r = (case r of Returned _ \<Rightarrow> 0 | Raised _ \<Rightarrow> 1)"

section \<open>The direct formulas of the valuation\<close>

text \<open>
  The present value of the explicit cash flows and of the terminal value as the
  specification writes them, to compare with what \<open>calculate_dcf\<close> computes.
\<close>

definition direct_pv_cashflows :: "real list \<Rightarrow> real \<Rightarrow> real" where
  "direct_pv_cashflows cfs wacc = (\<Sum>i = 1..length cfs. cfs ! (i - 1) / (1 + wacc) ^ i)"

definition direct_pv_terminal :: "real \<Rightarrow> real \<Rightarrow> real \<Rightarrow> nat \<Rightarrow> real" where
  "direct_pv_terminal cf_last wacc g years = cf_last * (1 + g) / (wacc - g) / (1 + wacc) ^ years"

section \<open>Properties of calculate_dcf\<close>

lemma float_max_ge_one: "1 \<le> float_max"
  by (simp add: float_max_def)

lemma py_pow_in_range:
  "\<bar>x ^ n\<bar> \<le> float_max \<Longrightarrow> py_pow x n = Inr (x ^ n)"
  by (simp add: py_pow_def)

lemma py_pow_overflow:
  "float_max < \<bar>x ^ n\<bar> \<Longrightarrow> py_pow x n = Inl OverflowError"
  by (simp add: py_pow_def)

lemma discount_loop_result:
  assumes "1 + wacc \<noteq> 0"
  shows "discount_loop wacc i cfs acc =
     (if \<exists>k<length cfs. float_max < \<bar>(1 + wacc) ^ (i + k)\<bar> then Inl OverflowError
      else Inr (acc + (\<Sum>k<length cfs. cfs ! k / (1 + wacc) ^ (i + k))))"
proof (induction cfs arbitrary: i acc)
  case Nil
  then show ?case by simp
next
  case (Cons cf cfs)
  have ex: "(\<exists>k<length (cf # cfs). float_max < \<bar>(1 + wacc) ^ (i + k)\<bar>) \<longleftrightarrow>
        float_max < \<bar>(1 + wacc) ^ i\<bar> \<or> (\<exists>k<length cfs. float_max < \<bar>(1 + wacc) ^ (Suc i + k)\<bar>)"
    (is "?L \<longleftrightarrow> ?R")
  proof
    assume ?L
    then obtain k where k: "k < Suc (length cfs)" "float_max < \<bar>(1 + wacc) ^ (i + k)\<bar>"
      by auto
    show ?R
    proof (cases k)
      case 0
      with k show ?thesis by simp
    next
      case (Suc j)
      with k have "j < length cfs" "float_max < \<bar>(1 + wacc) ^ (Suc i + j)\<bar>" by simp_all
      then show ?thesis by blast
    qed
  next
    assume ?R
    then show ?L
    proof
      assume "float_max < \<bar>(1 + wacc) ^ i\<bar>"
      then have "0 < Suc (length cfs) \<and> float_max < \<bar>(1 + wacc) ^ (i + 0)\<bar>" by simp
      then show ?L unfolding length_Cons by blast
    next
      assume "\<exists>k<length cfs. float_max < \<bar>(1 + wacc) ^ (Suc i + k)\<bar>"
      then obtain k where "k < length cfs" "float_max < \<bar>(1 + wacc) ^ (Suc i + k)\<bar>" by blast
      then have "Suc k < Suc (length cfs) \<and> float_max < \<bar>(1 + wacc) ^ (i + Suc k)\<bar>" by simp
      then show ?L unfolding length_Cons by blast
    qed
  qed
  have sm: "(\<Sum>k<Suc (length cfs). (cf # cfs) ! k / (1 + wacc) ^ (i + k))
        = cf / (1 + wacc) ^ i + (\<Sum>k<length cfs. cfs ! k / (1 + wacc) ^ (Suc i + k))"
    by (simp add: sum.lessThan_Suc_shift del: sum.lessThan_Suc)
  show ?case
  proof (cases "float_max < \<bar>(1 + wacc) ^ i\<bar>")
    case True
    then show ?thesis
      unfolding ex by (simp add: py_pow_overflow)
  next
    case False
    then have p: "py_pow (1 + wacc) i = Inr ((1 + wacc) ^ i)"
      by (simp add: py_pow_in_range)
    show ?thesis
      unfolding ex using False assms
      by (simp add: p Cons.IH sm del: sum.lessThan_Suc length_Cons)
  qed
qed

lemma direct_pv_cashflows_shift:
  "direct_pv_cashflows cfs wacc = (\<Sum>k<length cfs. cfs ! k / (1 + wacc) ^ (Suc k))"
proof -
  have "(\<Sum>i = 1..length cfs. cfs ! (i - 1) / (1 + wacc) ^ i)
        = (\<Sum>i = Suc 0..<Suc (length cfs). cfs ! (i - 1) / (1 + wacc) ^ i)"
    by (simp add: atLeastLessThanSuc_atLeastAtMost)
  also have "\<dots> = (\<Sum>k = 0..<length cfs. cfs ! k / (1 + wacc) ^ (Suc k))"
    by (simp only: sum.shift_bounds_Suc_ivl diff_Suc_1)
  finally show ?thesis
    by (simp add: direct_pv_cashflows_def atLeast0LessThan)
qed

lemma calculate_dcf_value:
  assumes "1 + wacc \<noteq> 0" and "cfs \<noteq> []"
  shows "calculate_dcf cfs wacc g years =
     (if \<exists>k<length cfs. float_max < \<bar>(1 + wacc) ^ (Suc k)\<bar> then Inl OverflowError
      else if wacc = g then Inl ZeroDivisionError
      else if float_max < \<bar>(1 + wacc) ^ years\<bar> then Inl OverflowError
      else Inr (direct_pv_cashflows cfs wacc + direct_pv_terminal (last cfs) wacc g years,
                direct_pv_cashflows cfs wacc,
                direct_pv_terminal (last cfs) wacc g years))"
proof -
  have loop: "discount_loop wacc 1 cfs 0 =
     (if \<exists>k<length cfs. float_max < \<bar>(1 + wacc) ^ (Suc k)\<bar> then Inl OverflowError
      else Inr (direct_pv_cashflows cfs wacc))"
    using discount_loop_result [OF assms(1), of 1 cfs 0]
    by (simp add: direct_pv_cashflows_shift del: sum.lessThan_Suc)
  show ?thesis
    unfolding calculate_dcf_def loop using assms
    by (simp add: py_pow_def direct_pv_terminal_def Let_def)
qed

lemma calculate_dcf_minus_one:
  assumes "cfs \<noteq> []"
  shows "calculate_dcf cfs (- 1) g years = Inl ZeroDivisionError"
proof -
  obtain cf rest where "cfs = cf # rest"
    using assms by (cases cfs) auto
  then show ?thesis
    using float_max_ge_one by (simp add: calculate_dcf_def py_pow_def)
qed

lemma power_overflow_mono:
  fixes x :: real
  assumes "float_max < \<bar>x ^ k\<bar>" and "k \<le> n"
  shows "float_max < \<bar>x ^ n\<bar>"
proof -
  have big: "1 < \<bar>x\<bar> ^ k"
    using assms(1) float_max_ge_one by (simp add: power_abs)
  have "1 \<le> \<bar>x\<bar>"
  proof (rule ccontr)
    assume "\<not> 1 \<le> \<bar>x\<bar>"
    then have "\<bar>x\<bar> ^ k \<le> 1" by (simp add: power_le_one)
    with big show False by simp
  qed
  then have "\<bar>x\<bar> ^ k \<le> \<bar>x\<bar> ^ n"
    using assms(2) by (simp add: power_increasing)
  then show ?thesis
    using assms(1) by (simp add: power_abs)
qed

lemma overflow_within_five:
  "(\<exists>k<length [c1, c2, c3, c4, c5 :: real]. float_max < \<bar>x ^ (Suc k)\<bar>) \<longleftrightarrow> float_max < \<bar>(x :: real) ^ 5\<bar>"
proof -
  have len: "length [c1, c2, c3, c4, c5] = 5" by simp
  show ?thesis
    unfolding len
  proof
    assume "\<exists>k<5. float_max < \<bar>x ^ (Suc k)\<bar>"
    then obtain k :: nat where k: "k < 5" "float_max < \<bar>x ^ (Suc k)\<bar>" by blast
    then have "Suc k \<le> 5" by simp
    with k(2) show "float_max < \<bar>x ^ 5\<bar>"
      by (rule power_overflow_mono)
  next
    assume "float_max < \<bar>x ^ 5\<bar>"
    then have "(4 :: nat) < 5 \<and> float_max < \<bar>x ^ (Suc 4)\<bar>" by simp
    then show "\<exists>k<5. float_max < \<bar>x ^ (Suc k)\<bar>" by blast
  qed
qed

lemma calculate_dcf_five:
  "calculate_dcf [c1, c2, c3, c4, c5] wacc 0.035 5 =
     (if wacc = - 1 then Inl ZeroDivisionError
      else if float_max < \<bar>(1 + wacc) ^ 5\<bar> then Inl OverflowError
      else if wacc = 0.035 then Inl ZeroDivisionError
      else Inr (direct_pv_cashflows [c1, c2, c3, c4, c5] wacc + direct_pv_terminal c5 wacc 0.035 5,
                direct_pv_cashflows [c1, c2, c3, c4, c5] wacc,
                direct_pv_terminal c5 wacc 0.035 5))"
proof (cases "wacc = - 1")
  case True
  then show ?thesis
    using calculate_dcf_minus_one [of "[c1, c2, c3, c4, c5]" "0.035" 5] by simp
next
  case False
  then have nz: "1 + wacc \<noteq> 0" by auto
  show ?thesis
    using False calculate_dcf_value [OF nz, of "[c1, c2, c3, c4, c5]" "0.035" 5]
    unfolding overflow_within_five by simp
qed



lemma float_max_large: "32 \<le> float_max"
  by (simp add: float_max_def)

lemma small_base_no_overflow:
  fixes x :: real
  assumes "\<bar>x\<bar> \<le> 2"
  shows "\<not> float_max < \<bar>x ^ 5\<bar>"
proof -
  have "\<bar>x\<bar> ^ 5 \<le> 2 ^ 5"
    using assms by (intro power_mono) simp_all
  then have "\<bar>x ^ 5\<bar> \<le> 32" by (simp add: power_abs)
  then show ?thesis using float_max_large by simp
qed


text \<open>
  C8, amended. With five cash flows of moderate magnitude and a discount rate above the
  terminal growth of 3.5% that the report uses, \<open>calculate_dcf\<close> returns the enterprise
  value, the present value of the explicit cash flows and the present value of the
  terminal value, each equal to its direct formula and the enterprise value being the sum
  of the two, as long as the discount factor of the fifth year is inside the range of a
  float. When it is not, the OverflowError of the power is caught and no value is
  returned.
\<close>

theorem calculate_dcf_direct:
  assumes "0.035 < wacc" and "list_all moderate [cf1, cf2, cf3, cf4, cf5]"
  shows "calculate_dcf [cf1, cf2, cf3, cf4, cf5] wacc 0.035 5 =
     (if float_max < (1 + wacc) ^ 5 then Inl OverflowError
      else Inr (direct_pv_cashflows [cf1, cf2, cf3, cf4, cf5] wacc
                  + direct_pv_terminal cf5 wacc 0.035 5,
                direct_pv_cashflows [cf1, cf2, cf3, cf4, cf5] wacc,
                direct_pv_terminal cf5 wacc 0.035 5))"
proof -
  have "0 < (1 + wacc) ^ 5" using assms(1) by simp
  then have "\<bar>(1 + wacc) ^ 5\<bar> = (1 + wacc) ^ 5" by simp
  moreover have "wacc \<noteq> - 1" "wacc \<noteq> 0.035" using assms(1) by auto
  ultimately show ?thesis
    using calculate_dcf_five [of cf1 cf2 cf3 cf4 cf5 wacc] by simp
qed

theorem calculate_dcf_direct_witness:
  "(0.035 :: real) < 0.095 \<and> list_all moderate [10, 11, 12, 13, 14] \<and>
   \<not> float_max < (1 + 0.095) ^ 5 \<and>
   calculate_dcf [10, 11, 12, 13, 14] 0.095 0.035 5 =
     Inr (direct_pv_cashflows [10, 11, 12, 13, 14] 0.095 + direct_pv_terminal 14 0.095 0.035 5,
          direct_pv_cashflows [10, 11, 12, 13, 14] 0.095,
          direct_pv_terminal 14 0.095 0.035 5)"
proof -
  have h1: "(0.035 :: real) < 0.095" by simp
  have h2: "list_all moderate [10, 11, 12, 13, 14]" by (simp add: moderate_def)
  have "\<not> float_max < \<bar>(1 + 0.095 :: real) ^ 5\<bar>"
    by (rule small_base_no_overflow) simp
  then have h3: "\<not> float_max < (1 + 0.095) ^ 5" by simp
  show ?thesis
    using calculate_dcf_direct [OF h1 h2] h1 h2 h3 by simp
qed

text \<open>
  C8, as the claim states it, fails: a discount rate of \<^verbatim>\<open>1e62\<close> is above the terminal
  growth, the fifth power of the discount factor overflows, and the handler returns no
  value.
\<close>

theorem calculate_dcf_overflow_counterexample:
  "(0.035 :: real) < 10 ^ 62 \<and>
   calculate_dcf [10, 11, 12, 13, 14] (10 ^ 62) 0.035 5 = Inl OverflowError"
proof -
  have "float_max < \<bar>(1 + 10 ^ 62 :: real) ^ 5\<bar>" by (simp add: float_max_def)
  then show ?thesis
    using calculate_dcf_five [of 10 11 12 13 14 "10 ^ 62"] by simp
qed




section \<open>Properties of calculate_wacc\<close>

lemma calculate_wacc_numeric:
  assumes "dict_get info ''beta'' (PyNum 0.8) = PyNum b"
    and "dict_get info ''totalDebt'' (PyNum 0) = PyNum td"
    and "dict_get info ''totalCash'' (PyNum 0) = PyNum tc"
    and "dict_get info ''marketCap'' (PyNum 0) = PyNum mc"
    and "dict_get info ''interestExpense'' (PyNum 0) = PyNum ie"
  shows "calculate_wacc info rf mrp =
     (if mc + (td - tc) > 0 then
        mc / (mc + (td - tc)) * (rf + (if b < 0.5 then 0.75 else max b 0.7) * mrp)
        + (td - tc) / (mc + (td - tc))
          * (if ie \<noteq> 0 \<and> td \<noteq> 0 then \<bar>ie\<bar> / td else rf + 0.015) * (1 - 0.21)
      else 0.085)"
  using assms by (simp add: calculate_wacc_def calculate_wacc_try_def Let_def)








text \<open>
  The bound needs a cap on beta as well: with no debt and no cash the result is the cost
  of equity, 52.5% at a beta of 8.
\<close>

lemma calculate_wacc_high_beta:
  "calculate_wacc (Map.empty(''beta'' \<mapsto> PyNum 8, ''marketCap'' \<mapsto> PyNum 100)) 0.045 0.06 = 0.525"
  by (simp add: calculate_wacc_def calculate_wacc_try_def dict_get_def Let_def)



lemma calculate_wacc_null:
  assumes "dict_get info ''beta'' (PyNum 0.8) = PyNone
         \<or> dict_get info ''totalDebt'' (PyNum 0) = PyNone
         \<or> dict_get info ''totalCash'' (PyNum 0) = PyNone
         \<or> dict_get info ''marketCap'' (PyNum 0) = PyNone"
  shows "calculate_wacc info rf mrp = 0.085"
proof (cases "dict_get info ''beta'' (PyNum 0.8)")
  case PyNone
  then show ?thesis by (simp add: calculate_wacc_def calculate_wacc_try_def)
next
  case b: (PyNum b)
  show ?thesis
  proof (cases "dict_get info ''totalDebt'' (PyNum 0)")
    case PyNone
    then show ?thesis using b by (simp add: calculate_wacc_def calculate_wacc_try_def Let_def)
  next
    case td: (PyNum td)
    show ?thesis
    proof (cases "dict_get info ''totalCash'' (PyNum 0)")
      case PyNone
      then show ?thesis using b td by (simp add: calculate_wacc_def calculate_wacc_try_def Let_def)
    next
      case tc: (PyNum tc)
      then have "dict_get info ''marketCap'' (PyNum 0) = PyNone"
        using assms b td by simp
      then show ?thesis using b td tc by (simp add: calculate_wacc_def calculate_wacc_try_def Let_def)
    qed
  qed
qed

lemma calculate_wacc_no_value:
  assumes "dict_get info ''beta'' (PyNum 0.8) = PyNum b"
    and "dict_get info ''totalDebt'' (PyNum 0) = PyNum td"
    and "dict_get info ''totalCash'' (PyNum 0) = PyNum tc"
    and "dict_get info ''marketCap'' (PyNum 0) = PyNum mc"
    and "mc + (td - tc) \<le> 0"
  shows "calculate_wacc info rf mrp = 0.085"
  using assms by (simp add: calculate_wacc_def calculate_wacc_try_def Let_def)

lemma not_truthy_cases: "\<not> truthy v \<Longrightarrow> v = PyNone \<or> v = PyNum 0"
  by (cases v) auto

lemma dict_get_null: "d k = Some PyNone \<Longrightarrow> dict_get d k dflt = PyNone"
  by (simp add: dict_get_def)

text \<open>
  C4, as the claim states it, fails: with beta, debt, cash and interest expense all
  missing and only a market value given, the estimator uses the defaults of the missing
  fields (beta 0.8, the others 0) and returns the cost of equity, 9.3%, not 8.5%.
\<close>

theorem calculate_wacc_missing_inputs_counterexample:
  "calculate_wacc (Map.empty(''marketCap'' \<mapsto> PyNum 100)) 0.045 0.06 = 0.093"
  by (simp add: calculate_wacc_def calculate_wacc_try_def dict_get_def Let_def)

text \<open>
  C4, amended. The estimator returns exactly 8.5% when market value, debt and cash are
  each zero, absent or null, and whenever beta, debt, cash or market value is present
  with a null value. A key that is merely absent takes its own default and the
  calculation goes on.
\<close>

theorem calculate_wacc_default:
  "(\<not> truthy (dict_get info ''marketCap'' (PyNum 0)) \<and>
    \<not> truthy (dict_get info ''totalDebt'' (PyNum 0)) \<and>
    \<not> truthy (dict_get info ''totalCash'' (PyNum 0))
      \<longrightarrow> calculate_wacc info rf mrp = 0.085) \<and>
   (info ''beta'' = Some PyNone \<or> info ''totalDebt'' = Some PyNone \<or>
    info ''totalCash'' = Some PyNone \<or> info ''marketCap'' = Some PyNone
      \<longrightarrow> calculate_wacc info rf mrp = 0.085)"
proof (intro conjI impI)
  assume "info ''beta'' = Some PyNone \<or> info ''totalDebt'' = Some PyNone \<or>
    info ''totalCash'' = Some PyNone \<or> info ''marketCap'' = Some PyNone"
  then show "calculate_wacc info rf mrp = 0.085"
    by (intro calculate_wacc_null) (auto simp: dict_get_null)
next
  assume z: "\<not> truthy (dict_get info ''marketCap'' (PyNum 0)) \<and>
    \<not> truthy (dict_get info ''totalDebt'' (PyNum 0)) \<and>
    \<not> truthy (dict_get info ''totalCash'' (PyNum 0))"
  show "calculate_wacc info rf mrp = 0.085"
  proof (cases "dict_get info ''beta'' (PyNum 0.8) = PyNone
         \<or> dict_get info ''totalDebt'' (PyNum 0) = PyNone
         \<or> dict_get info ''totalCash'' (PyNum 0) = PyNone
         \<or> dict_get info ''marketCap'' (PyNum 0) = PyNone")
    case True
    then show ?thesis by (rule calculate_wacc_null)
  next
    case False
    then obtain b where b: "dict_get info ''beta'' (PyNum 0.8) = PyNum b"
      by (cases "dict_get info ''beta'' (PyNum 0.8)") auto
    from False z have "dict_get info ''totalDebt'' (PyNum 0) = PyNum 0"
      and "dict_get info ''totalCash'' (PyNum 0) = PyNum 0"
      and "dict_get info ''marketCap'' (PyNum 0) = PyNum 0"
      using not_truthy_cases by blast+
    then show ?thesis
      using calculate_wacc_no_value [OF b, of 0 0 0] by simp
  qed
qed

theorem calculate_wacc_default_witness:
  "\<not> truthy (dict_get (Map.empty(''beta'' \<mapsto> PyNum 1.2, ''totalDebt'' \<mapsto> PyNum 0))
       ''marketCap'' (PyNum 0)) \<and>
   calculate_wacc (Map.empty(''beta'' \<mapsto> PyNum 1.2, ''totalDebt'' \<mapsto> PyNum 0)) 0.045 0.06 = 0.085 \<and>
   (Map.empty(''totalCash'' \<mapsto> PyNone, ''marketCap'' \<mapsto> PyNum 100)) ''totalCash'' = Some PyNone \<and>
   calculate_wacc (Map.empty(''totalCash'' \<mapsto> PyNone, ''marketCap'' \<mapsto> PyNum 100)) 0.045 0.06
     = 0.085"
  using calculate_wacc_default [of "Map.empty(''beta'' \<mapsto> PyNum 1.2, ''totalDebt'' \<mapsto> PyNum 0)"
      "0.045" "0.06"]
    calculate_wacc_default [of "Map.empty(''totalCash'' \<mapsto> PyNone, ''marketCap'' \<mapsto> PyNum 100)"
      "0.045" "0.06"]
  by (simp add: dict_get_def)

section \<open>Properties of the forecasts\<close>

lemma op_margin_2024_range:
  "0.30 < generate_report_op_margin_2024 lly_info \<and> generate_report_op_margin_2024 lly_info \<le> 0.40"
  by (simp add: generate_report_op_margin_2024_def split: option.splits pyval.splits)

lemma eps_model_pos:
  "0 < s \<Longrightarrow> 0 < r \<Longrightarrow> 0 < m \<Longrightarrow> 0 < eps_model r m s"
  by (simp add: eps_model_def)

lemma eps_model_mono:
  assumes "0 < s" "0 \<le> r1" "r1 \<le> r2" "0 \<le> m1" "m1 \<le> m2"
  shows "eps_model r1 m1 s \<le> eps_model r2 m2 s"
proof -
  have "r1 * m1 \<le> r2 * m2"
    using assms(2-5) by (intro mult_mono) auto
  then have "r1 * m1 * 10 ^ 9 \<le> r2 * m2 * 10 ^ 9" by simp
  then show ?thesis
    unfolding eps_model_def using assms(1) by (simp add: divide_right_mono)
qed

lemma revenue_fields:
  "revenue_2025 (generate_report_revenue r) = 59.5"
  "revenue_2026 (generate_report_revenue r) = 76.16"
  "revenue_2027 (generate_report_revenue r) = 92.9152"
  by (simp_all add: generate_report_revenue_def Let_def)

lemma eps_model_nonneg:
  "0 < s \<Longrightarrow> 0 \<le> r * m \<Longrightarrow> 0 \<le> eps_model r m s"
  by (simp add: eps_model_def)

lemma generate_report_eps_path:
  assumes "0 < market_cap" and "0 < current_price"
    and "(if truthy forward_eps then forward_eps else ttm_eps) = PyNum e24"
    and "0 \<le> revenue_2025 fc * (op_margin_2024 + 0.01)"
  shows "let shares = market_cap / current_price;
             n25 = eps_model (revenue_2025 fc) (op_margin_2024 + 0.01) shares;
             n26 = eps_model (revenue_2026 fc) (op_margin_2024 + 0.01 + 0.01) shares;
             n27 = eps_model (revenue_2027 fc) (op_margin_2024 + 0.01 + 0.01 + 0.005) shares
         in \<exists>p. generate_report_eps fc market_cap current_price forward_eps ttm_eps
                  op_margin_2024 = Inr p \<and>
              eps_2024 p = e24 \<and>
              eps_2024 p \<le> eps_2025 p \<and> eps_2025 p \<le> eps_2026 p \<and> eps_2026 p \<le> eps_2027 p \<and>
              (n25 < e24 \<longrightarrow>
                 eps_2025 p = eps_2024 p * 1.10 \<and> eps_2026 p = eps_2025 p * 1.25 \<and>
                 eps_2027 p = eps_2026 p * 1.20) \<and>
              (\<not> n25 < e24 \<longrightarrow>
                 eps_2025 p = n25 \<and>
                 eps_2026 p = (if n26 < eps_2025 p then eps_2025 p * 1.20 else n26) \<and>
                 eps_2027 p = (if n27 < eps_2026 p then eps_2026 p * 1.15 else n27))"
proof -
  define shares where "shares = market_cap / current_price"
  define n25 where "n25 = eps_model (revenue_2025 fc) (op_margin_2024 + 0.01) shares"
  define n26 where "n26 = eps_model (revenue_2026 fc) (op_margin_2024 + 0.01 + 0.01) shares"
  define n27 where "n27 = eps_model (revenue_2027 fc) (op_margin_2024 + 0.01 + 0.01 + 0.005) shares"
  define e26 where "e26 = (if n26 < n25 then n25 * 1.20 else n26)"
  define e27 where "e27 = (if n27 < e26 then e26 * 1.15 else n27)"
  have sh: "0 < shares" "current_price \<noteq> 0" "market_cap / current_price \<noteq> 0"
    using assms(1,2) by (simp_all add: shares_def)
  have pos: "0 \<le> n25"
    unfolding n25_def using sh(1) assms(4) by (rule eps_model_nonneg)
  have run: "generate_report_eps fc market_cap current_price forward_eps ttm_eps op_margin_2024 =
      (if n25 < e24 then
         Inr \<lparr> eps_2024 = e24, eps_2025 = e24 * 1.10, eps_2026 = e24 * 1.10 * 1.25,
               eps_2027 = e24 * 1.10 * 1.25 * 1.20 \<rparr>
       else
         Inr \<lparr> eps_2024 = e24, eps_2025 = n25, eps_2026 = e26, eps_2027 = e27 \<rparr>)"
    unfolding generate_report_eps_def Let_def
    using sh(2,3) assms(3)
    by (simp add: n25_def n26_def n27_def e26_def e27_def shares_def)
  have goal: "\<exists>p. generate_report_eps fc market_cap current_price forward_eps ttm_eps
                  op_margin_2024 = Inr p \<and>
              eps_2024 p = e24 \<and>
              eps_2024 p \<le> eps_2025 p \<and> eps_2025 p \<le> eps_2026 p \<and> eps_2026 p \<le> eps_2027 p \<and>
              (n25 < e24 \<longrightarrow>
                 eps_2025 p = eps_2024 p * 1.10 \<and> eps_2026 p = eps_2025 p * 1.25 \<and>
                 eps_2027 p = eps_2026 p * 1.20) \<and>
              (\<not> n25 < e24 \<longrightarrow>
                 eps_2025 p = n25 \<and>
                 eps_2026 p = (if n26 < eps_2025 p then eps_2025 p * 1.20 else n26) \<and>
                 eps_2027 p = (if n27 < eps_2026 p then eps_2026 p * 1.15 else n27))"
  proof (cases "n25 < e24")
    case True
    then have "0 < e24" using pos by simp
    then show ?thesis
      unfolding run using True by simp
  next
    case False
    have a: "n25 \<le> e26" using pos by (simp add: e26_def)
    then have "0 \<le> e26" using pos by simp
    then have b: "e26 \<le> e27" by (simp add: e27_def)
    show ?thesis
      unfolding run using False a b by (auto simp: e26_def e27_def)
  qed
  then show ?thesis
    unfolding Let_def n25_def n26_def n27_def shares_def .
qed


text \<open>
  In the report itself the forecast is \<open>generate_report_revenue\<close> and the margin comes from
  \<open>generate_report_op_margin_2024\<close>: the modelled earnings of 2025 are positive and the
  modelled EPS does not decrease, so the floors of 2026 and 2027 are not reached there.
\<close>

lemma generate_report_eps_floors_unreached:
  assumes "0 < market_cap" and "0 < current_price"
  shows "let fc = generate_report_revenue r;
             m = generate_report_op_margin_2024 lly_info;
             shares = market_cap / current_price;
             n25 = eps_model (revenue_2025 fc) (m + 0.01) shares;
             n26 = eps_model (revenue_2026 fc) (m + 0.01 + 0.01) shares;
             n27 = eps_model (revenue_2027 fc) (m + 0.01 + 0.01 + 0.005) shares
         in 0 \<le> revenue_2025 fc * (m + 0.01) \<and> n25 \<le> n26 \<and> n26 \<le> n27"
proof -
  define m where "m = generate_report_op_margin_2024 lly_info"
  have m: "0.30 < m" "m \<le> 0.40"
    using op_margin_2024_range [of lly_info] by (simp_all add: m_def)
  have sh: "0 < market_cap / current_price"
    using assms by simp
  have a: "0 \<le> (59.5 :: real) * (m + 0.01)" using m(1) by simp
  have b: "eps_model 59.5 (m + 0.01) (market_cap / current_price)
           \<le> eps_model 76.16 (m + 0.01 + 0.01) (market_cap / current_price)"
    using sh m(1) by (intro eps_model_mono) auto
  have c: "eps_model 76.16 (m + 0.01 + 0.01) (market_cap / current_price)
           \<le> eps_model 92.9152 (m + 0.01 + 0.01 + 0.005) (market_cap / current_price)"
    using sh m(1) by (intro eps_model_mono) auto
  from a b c show ?thesis
    unfolding Let_def revenue_fields m_def by blast
qed

text \<open>
  So for the forecast and the margin of the report the EPS path exists and does not
  decrease, whatever the base-year revenue and the fetched margin are.
\<close>

lemma generate_report_eps_of_report:
  assumes "0 < market_cap" and "0 < current_price"
    and "(if truthy forward_eps then forward_eps else ttm_eps) = PyNum e24"
  shows "\<exists>p. generate_report_eps (generate_report_revenue r) market_cap current_price
              forward_eps ttm_eps (generate_report_op_margin_2024 lly_info) = Inr p \<and>
           eps_2024 p = e24 \<and>
           eps_2024 p \<le> eps_2025 p \<and> eps_2025 p \<le> eps_2026 p \<and> eps_2026 p \<le> eps_2027 p"
proof -
  have "0 \<le> revenue_2025 (generate_report_revenue r)
              * (generate_report_op_margin_2024 lly_info + 0.01)"
    using generate_report_eps_floors_unreached [OF assms(1,2), of r lly_info]
    unfolding Let_def by blast
  then show ?thesis
    using generate_report_eps_path [OF assms(1-3), of "generate_report_revenue r"
        "generate_report_op_margin_2024 lly_info"]
    unfolding Let_def by blast
qed

text \<open>
  C5. Take any revenue forecast and any starting margin for which the modelled earnings
  of 2025 are not negative, a positive market value, a positive price and a base-year EPS
  that is a number, all of moderate magnitude. Then the EPS path exists and does not
  decrease from 2024 to 2027. When the modelled EPS of 2025 is below the EPS of 2024 the
  whole path is rebuilt from 2024 with +10%, +25% and +20%; otherwise 2025 is the
  modelled value and a later year is replaced, only if it is below the year before, by
  that year plus 20% (2026) or plus 15% (2027).
\<close>

theorem generate_report_eps_monotone:
  assumes "0 < market_cap" and "0 < current_price"
    and "(if truthy forward_eps then forward_eps else ttm_eps) = PyNum e24"
    and "0 \<le> revenue_2025 fc * (op_margin_2024 + 0.01)"
    and "list_all moderate [market_cap, current_price, e24, op_margin_2024,
           revenue_2025 fc, revenue_2026 fc, revenue_2027 fc]"
  shows "let shares = market_cap / current_price;
             n25 = eps_model (revenue_2025 fc) (op_margin_2024 + 0.01) shares;
             n26 = eps_model (revenue_2026 fc) (op_margin_2024 + 0.01 + 0.01) shares;
             n27 = eps_model (revenue_2027 fc) (op_margin_2024 + 0.01 + 0.01 + 0.005) shares
         in \<exists>p. generate_report_eps fc market_cap current_price forward_eps ttm_eps
                  op_margin_2024 = Inr p \<and>
              eps_2024 p = e24 \<and>
              eps_2024 p \<le> eps_2025 p \<and> eps_2025 p \<le> eps_2026 p \<and> eps_2026 p \<le> eps_2027 p \<and>
              (n25 < e24 \<longrightarrow>
                 eps_2025 p = eps_2024 p * 1.10 \<and> eps_2026 p = eps_2025 p * 1.25 \<and>
                 eps_2027 p = eps_2026 p * 1.20) \<and>
              (\<not> n25 < e24 \<longrightarrow>
                 eps_2025 p = n25 \<and>
                 eps_2026 p = (if n26 < eps_2025 p then eps_2025 p * 1.20 else n26) \<and>
                 eps_2027 p = (if n27 < eps_2026 p then eps_2026 p * 1.15 else n27))"
  using assms(1-4) by (rule generate_report_eps_path)

theorem generate_report_eps_monotone_witness:
  "(0 :: real) < 10 ^ 12 \<and> (0 :: real) < 1000 \<and>
   (if truthy (PyNum 22.66) then PyNum 22.66 else PyNum 19.80) = PyNum 22.66 \<and>
   list_all moderate [10 ^ 12, 1000, 22.66, 0.39, 60, 50, 40] \<and>
   (\<exists>p. generate_report_eps
          \<lparr> revenue_2024 = 45, revenue_2025 = 60, revenue_2026 = 50, revenue_2027 = 40,
            glp1_2024 = 20, glp1_2025 = 33, glp1_2026 = 30, glp1_2027 = 25 \<rparr>
          (10 ^ 12) 1000 (PyNum 22.66) (PyNum 19.80) 0.39 = Inr p \<and>
        eps_2024 p = 22.66 \<and> eps_2025 p = 24 \<and>
        eps_2026 p = eps_2025 p * 1.20 \<and> eps_2027 p = eps_2026 p * 1.15 \<and>
        eps_2024 p \<le> eps_2025 p \<and> eps_2025 p \<le> eps_2026 p \<and> eps_2026 p \<le> eps_2027 p) \<and>
   (if truthy (PyNum 0) then PyNum 0 else PyNum 30) = PyNum 30 \<and>
   (\<exists>p. generate_report_eps (generate_report_revenue 45) (10 ^ 12) 1000
          (PyNum 0) (PyNum 30) (generate_report_op_margin_2024 None) = Inr p \<and>
        eps_2024 p = 30 \<and> eps_2025 p = eps_2024 p * 1.10 \<and>
        eps_2026 p = eps_2025 p * 1.25 \<and> eps_2027 p = eps_2026 p * 1.20 \<and>
        eps_2024 p \<le> eps_2025 p \<and> eps_2025 p \<le> eps_2026 p \<and> eps_2026 p \<le> eps_2027 p)"
proof -
  have h1: "(0 :: real) < 10 ^ 12" and h2: "(0 :: real) < 1000" by simp_all
  have h3: "(if truthy (PyNum 22.66) then PyNum 22.66 else PyNum 19.80) = PyNum 22.66" by simp
  have h4: "(if truthy (PyNum 0) then PyNum 0 else PyNum 30) = PyNum 30" by simp
  let ?fc = "\<lparr> revenue_2024 = 45, revenue_2025 = 60, revenue_2026 = 50, revenue_2027 = 40,
            glp1_2024 = 20, glp1_2025 = 33, glp1_2026 = 30, glp1_2027 = (25 :: real) \<rparr>"
  have p1: "0 \<le> revenue_2025 ?fc * (0.39 + 0.01)" by simp
  have m1: "list_all moderate [10 ^ 12, 1000, 22.66, 0.39,
           revenue_2025 ?fc, revenue_2026 ?fc, revenue_2027 ?fc]"
    by (simp add: moderate_def)
  have m1': "list_all moderate [10 ^ 12, 1000, 22.66, 0.39, 60, 50, 40]"
    by (simp add: moderate_def)
  have a: "\<exists>p. generate_report_eps ?fc (10 ^ 12) 1000 (PyNum 22.66) (PyNum 19.80) 0.39 = Inr p \<and>
        eps_2024 p = 22.66 \<and> eps_2025 p = 24 \<and>
        eps_2026 p = eps_2025 p * 1.20 \<and> eps_2027 p = eps_2026 p * 1.15 \<and>
        eps_2024 p \<le> eps_2025 p \<and> eps_2025 p \<le> eps_2026 p \<and> eps_2026 p \<le> eps_2027 p"
    using generate_report_eps_monotone [OF h1 h2 h3 p1 m1]
    by (auto simp: Let_def eps_model_def)
  let ?m = "generate_report_op_margin_2024 None"
  have mv: "?m = 0.38" by (simp add: generate_report_op_margin_2024_def)
  have p2: "0 \<le> revenue_2025 (generate_report_revenue 45) * (?m + 0.01)"
    by (simp add: mv revenue_fields)
  have m2: "list_all moderate [10 ^ 12, 1000, 30, ?m,
           revenue_2025 (generate_report_revenue 45), revenue_2026 (generate_report_revenue 45),
           revenue_2027 (generate_report_revenue 45)]"
    by (simp add: mv revenue_fields moderate_def)
  have b: "\<exists>p. generate_report_eps (generate_report_revenue 45) (10 ^ 12) 1000
          (PyNum 0) (PyNum 30) ?m = Inr p \<and>
        eps_2024 p = 30 \<and> eps_2025 p = eps_2024 p * 1.10 \<and>
        eps_2026 p = eps_2025 p * 1.25 \<and> eps_2027 p = eps_2026 p * 1.20 \<and>
        eps_2024 p \<le> eps_2025 p \<and> eps_2025 p \<le> eps_2026 p \<and> eps_2026 p \<le> eps_2027 p"
    using generate_report_eps_monotone [OF h1 h2 h4 p2 m2]
    by (auto simp: Let_def eps_model_def mv revenue_fields)
  show ?thesis
    using h1 h2 h3 h4 m1' a b by blast
qed

text \<open>
  C6, as the claim states it, fails: the figure of 2025 is the fixed guidance of 59.5, so
  a statement whose most recent year shows a revenue of 65 billion gives a base year
  above the year after it.
\<close>

theorem generate_report_revenue_counterexample:
  "generate_report_revenue_2024 (Some Map.empty) True
      (Some (Map.empty(''Total Revenue'' \<mapsto> [Val (65 * 10 ^ 9), Val (45 * 10 ^ 9)]))) = Inr (Val 65) \<and>
   \<not> revenue_2024 (generate_report_revenue 65) < revenue_2025 (generate_report_revenue 65)"
  by (simp add: generate_report_revenue_2024_def generate_report_revenue_def Let_def)

text \<open>
  C6, amended. For a positive base-year revenue below the guidance of 59.5 for 2025 (the
  fallback of 45.0 is one) the four revenues increase strictly; the segment shares are
  45%, 55%, 60% and 62% of the year's revenue and do not decrease.
\<close>

theorem generate_report_revenue_increasing:
  assumes "0 < r" and "r < 59.5"
  shows "let fc = generate_report_revenue r in
     revenue_2024 fc < revenue_2025 fc \<and> revenue_2025 fc < revenue_2026 fc \<and>
     revenue_2026 fc < revenue_2027 fc \<and>
     segment_share (glp1_2024 fc) (revenue_2024 fc) = 0.45 \<and>
     segment_share (glp1_2025 fc) (revenue_2025 fc) = 0.55 \<and>
     segment_share (glp1_2026 fc) (revenue_2026 fc) = 0.60 \<and>
     segment_share (glp1_2027 fc) (revenue_2027 fc) = 0.62 \<and>
     segment_share (glp1_2024 fc) (revenue_2024 fc) \<le> segment_share (glp1_2025 fc) (revenue_2025 fc) \<and>
     segment_share (glp1_2025 fc) (revenue_2025 fc) \<le> segment_share (glp1_2026 fc) (revenue_2026 fc) \<and>
     segment_share (glp1_2026 fc) (revenue_2026 fc) \<le> segment_share (glp1_2027 fc) (revenue_2027 fc)"
  using assms by (simp add: generate_report_revenue_def segment_share_def Let_def)

theorem generate_report_revenue_increasing_witness:
  "(0 :: real) < 45 \<and> (45 :: real) < 59.5 \<and>
   generate_report_revenue_2024 None False None = Inr (Val 45) \<and>
   revenue_2024 (generate_report_revenue 45) < revenue_2025 (generate_report_revenue 45) \<and>
   revenue_2025 (generate_report_revenue 45) < revenue_2026 (generate_report_revenue 45) \<and>
   revenue_2026 (generate_report_revenue 45) < revenue_2027 (generate_report_revenue 45)"
  using generate_report_revenue_increasing [of 45]
  by (simp add: Let_def generate_report_revenue_2024_def)

text \<open>
  C7. The code does not do what the claim says when the two most recent years are both
  NaN: the second cell is taken without a test, and the base-year revenue is NaN. The
  constant is used only when there is no statement or no data at all.
\<close>

theorem generate_report_revenue_2024_nan:
  "generate_report_revenue_2024 (Some Map.empty) True
      (Some (Map.empty(''Total Revenue'' \<mapsto> [NaN, NaN, Val (34 * 10 ^ 9)]))) = Inr NaN"
  by (simp add: generate_report_revenue_2024_def Let_def)


section \<open>Properties of the target price\<close>

lemma target_price_weights:
  "target_price bull base bear = 0.61 * bull + 0.27 * base + 0.12 * bear"
  by (simp add: target_price_def target_price_weighted_def Let_def algebra_simps)

text \<open>
  C9. The weighted target is 35% of the bull price, 45% of the base price and 20% of
  the bear price; the final target is 60% of the weighted target and 40% of the bull
  price. Prices of 1200, 1000 and 800 give 1030 and 1098.
\<close>

theorem target_price_blend:
  "target_price_weighted bull base bear = bull * 0.35 + base * 0.45 + bear * 0.20 \<and>
   target_price bull base bear = 0.6 * target_price_weighted bull base bear + 0.4 * bull \<and>
   target_price_weighted 1200 1000 800 = 1030 \<and>
   target_price 1200 1000 800 = 1098"
  by (simp add: target_price_def target_price_weighted_def Let_def algebra_simps)

text \<open>
  C10. The final target is the combination of the three prices with the weights 0.61,
  0.27 and 0.12, which are positive and add up to 1, so it lies between the lowest and
  the highest of the three prices.
\<close>

theorem target_price_convex:
  "target_price bull base bear = 0.61 * bull + 0.27 * base + 0.12 * bear \<and>
   (0 :: real) < 0.61 \<and> (0 :: real) < 0.27 \<and> (0 :: real) < 0.12 \<and>
   (0.61 :: real) + 0.27 + 0.12 = 1 \<and>
   min bull (min base bear) \<le> target_price bull base bear \<and>
   target_price bull base bear \<le> max bull (max base bear)"
  unfolding target_price_weights by (auto simp: min_def max_def)

section \<open>Properties of the run\<close>



text \<open>
  When stdout does not accept writes the first statement of the run raises, the print of
  the handler raises too, and the exit status is 1.
\<close>

lemma main_handler_fails:
  assumes "\<not> stdout_ok s"
  shows "main s f rest = ([], Raised WriteError) \<and> exit_status (snd (main s f rest)) = 1"
  using assms by (simp add: main_def generate_report_def exit_status_def)





end
